theory Spec2Isabelle
  imports Complex_Main "HOL-Library.Multiset" "HOL-Library.AList" "HOL-Library.List_Lexorder"
begin

section \<open>Data model\<close>

text \<open>
  The program is Python over pandas, numpy and sympy. The code of the repository
  (\<^verbatim>\<open>split_df\<close>, \<^verbatim>\<open>create_function\<close> and the methods of
  \<^verbatim>\<open>MEDProcessor\<close>) is translated statement by statement; the library calls it
  makes are modelled on the fragment the program uses, and each such model says so.

  Numbers: a Python or numpy float is a real number (exact arithmetic, no rounding) or
  one of the three non-finite values of IEEE 754. Dataset cells are finite.
\<close>

datatype py_error =
    ValueError "string list"
  | KeyError string
  | FileNotFoundError string
  | SympifyError
  | NameError string
  | TypeError

text \<open>
  A \<^verbatim>\<open>pandas.DataFrame\<close> of numeric columns: the column labels and the rows in
  positional order, each row holding one cell per column. The index is positional
  (\<^verbatim>\<open>reset_index(drop=True)\<close> renumbers it), so it is not stored.
\<close>

record dataframe =
  columns :: "string list"
  rows :: "real list list"

section \<open>general\_utils.split\_df\<close>

text \<open>\<^verbatim>\<open>int(x)\<close> on a finite float: truncation toward zero.\<close>

definition py_int :: "real \<Rightarrow> int" where
  "py_int x = (if 0 \<le> x then \<lfloor>x\<rfloor> else \<lceil>x\<rceil>)"

text \<open>
  A slice bound of \<^verbatim>\<open>iloc\<close>: a negative bound counts from the end, and both ends are
  clamped to the length.
\<close>

definition slice_bound :: "nat \<Rightarrow> int \<Rightarrow> nat" where
  "slice_bound n k = (if 0 \<le> k then min n (nat k) else n - nat (- k))"

definition iloc_to :: "'a list \<Rightarrow> int \<Rightarrow> 'a list" where
  "iloc_to xs k = take (slice_bound (length xs) k) xs"

definition iloc_from :: "'a list \<Rightarrow> int \<Rightarrow> 'a list" where
  "iloc_from xs k = drop (slice_bound (length xs) k) xs"

text \<open>
  \<^verbatim>\<open>df.sample(frac=1, random_state=seed).reset_index(drop=True)\<close>: numpy's generator,
  seeded with \<^verbatim>\<open>seed\<close>, draws the order in which the \<open>n\<close> row positions are taken.
  The generator is library code: its draw is the parameter \<open>draw\<close>, a function of the
  seed and the number of rows.
\<close>

definition sample_all :: "(int \<Rightarrow> nat \<Rightarrow> nat list) \<Rightarrow> int \<Rightarrow> dataframe \<Rightarrow> dataframe" where
  "sample_all draw seed d =
     d\<lparr>rows := map (\<lambda>i. rows d ! i) (draw seed (length (rows d)))\<rparr>"

definition split_df ::
  "(int \<Rightarrow> nat \<Rightarrow> nat list) \<Rightarrow> dataframe \<Rightarrow> real \<Rightarrow> int \<Rightarrow> dataframe \<times> dataframe" where
  "split_df draw d split_frac seed =
     (let df_shuffled = sample_all draw seed d;
          split_idx = py_int (split_frac * real (length (rows df_shuffled)))
      in (df_shuffled\<lparr>rows := iloc_to (rows df_shuffled) split_idx\<rparr>,
          df_shuffled\<lparr>rows := iloc_from (rows df_shuffled) split_idx\<rparr>))"


text \<open>A draw for running the model on concrete inputs: the positions rotated by the seed.\<close>

definition rotate_draw :: "int \<Rightarrow> nat \<Rightarrow> nat list" where
  "rotate_draw seed n = rotate (nat \<bar>seed\<bar>) [0..<n]"

section \<open>Errors as values\<close>

definition bind_err :: "'e + 'a \<Rightarrow> ('a \<Rightarrow> 'e + 'b) \<Rightarrow> 'e + 'b" where
  "bind_err r f = (case r of Inl e \<Rightarrow> Inl e | Inr v \<Rightarrow> f v)"

text \<open>A list comprehension whose body may raise: the first failure ends it.\<close>

fun collect :: "('a \<Rightarrow> 'e + 'b) \<Rightarrow> 'a list \<Rightarrow> 'e + 'b list" where
  "collect f [] = Inr []"
| "collect f (x # xs) =
     bind_err (f x) (\<lambda>y. bind_err (collect f xs) (\<lambda>ys. Inr (y # ys)))"

section \<open>numpy floats\<close>

datatype npfloat = Fin real | PInf | NInf | NaN


fun is_neg :: "npfloat \<Rightarrow> bool" where
  "is_neg (Fin x) = (x < 0)"
| "is_neg NInf = True"
| "is_neg v = False"

fun np_neg :: "npfloat \<Rightarrow> npfloat" where
  "np_neg (Fin x) = Fin (- x)"
| "np_neg PInf = NInf"
| "np_neg NInf = PInf"
| "np_neg NaN = NaN"

fun np_abs :: "npfloat \<Rightarrow> npfloat" where
  "np_abs (Fin x) = Fin \<bar>x\<bar>"
| "np_abs PInf = PInf"
| "np_abs NInf = PInf"
| "np_abs NaN = NaN"

fun np_add :: "npfloat \<Rightarrow> npfloat \<Rightarrow> npfloat" where
  "np_add NaN b = NaN"
| "np_add a NaN = NaN"
| "np_add (Fin x) (Fin y) = Fin (x + y)"
| "np_add PInf NInf = NaN"
| "np_add NInf PInf = NaN"
| "np_add PInf b = PInf"
| "np_add a PInf = PInf"
| "np_add NInf b = NInf"
| "np_add a NInf = NInf"

definition np_sub :: "npfloat \<Rightarrow> npfloat \<Rightarrow> npfloat" where
  "np_sub a b = np_add a (np_neg b)"

fun np_mul :: "npfloat \<Rightarrow> npfloat \<Rightarrow> npfloat" where
  "np_mul NaN b = NaN"
| "np_mul a NaN = NaN"
| "np_mul (Fin x) (Fin y) = Fin (x * y)"
| "np_mul a b =
     (if a = Fin 0 \<or> b = Fin 0 then NaN else if is_neg a = is_neg b then PInf else NInf)"

fun np_div :: "npfloat \<Rightarrow> npfloat \<Rightarrow> npfloat" where
  "np_div NaN b = NaN"
| "np_div a NaN = NaN"
| "np_div (Fin x) (Fin y) =
     (if y \<noteq> 0 then Fin (x / y) else if x = 0 then NaN else if 0 < x then PInf else NInf)"
| "np_div (Fin x) b = Fin 0"
| "np_div a (Fin y) = (if is_neg a = (y < 0) then PInf else NInf)"
| "np_div a b = NaN"

fun np_exp :: "npfloat \<Rightarrow> npfloat" where
  "np_exp (Fin x) = Fin (exp x)"
| "np_exp PInf = PInf"
| "np_exp NInf = Fin 0"
| "np_exp NaN = NaN"

fun np_log :: "npfloat \<Rightarrow> npfloat" where
  "np_log (Fin x) = (if 0 < x then Fin (ln x) else if x = 0 then NInf else NaN)"
| "np_log PInf = PInf"
| "np_log NInf = NaN"
| "np_log NaN = NaN"

text \<open>\<^verbatim>\<open>x ** y\<close> on floats, after the table of C's \<^verbatim>\<open>pow\<close>.\<close>

definition pow_fin :: "real \<Rightarrow> real \<Rightarrow> npfloat" where
  "pow_fin x y =
     (if y = of_int \<lfloor>y\<rfloor> then
        (if 0 \<le> \<lfloor>y\<rfloor> then Fin (x ^ nat \<lfloor>y\<rfloor>)
         else if x = 0 then PInf else Fin (1 / x ^ nat (- \<lfloor>y\<rfloor>)))
      else if 0 < x then Fin (x powr y)
      else if x = 0 then (if 0 < y then Fin 0 else PInf)
      else NaN)"

fun pow_inf :: "npfloat \<Rightarrow> npfloat \<Rightarrow> npfloat" where
  "pow_inf (Fin x) (Fin y) = pow_fin x y"
| "pow_inf (Fin x) PInf = (if \<bar>x\<bar> < 1 then Fin 0 else if 1 < \<bar>x\<bar> then PInf else Fin 1)"
| "pow_inf (Fin x) NInf = (if \<bar>x\<bar> < 1 then PInf else if 1 < \<bar>x\<bar> then Fin 0 else Fin 1)"
| "pow_inf PInf (Fin y) = (if y < 0 then Fin 0 else PInf)"
| "pow_inf PInf PInf = PInf"
| "pow_inf PInf NInf = Fin 0"
| "pow_inf NInf (Fin y) =
     (if y < 0 then Fin 0 else if y = of_int \<lfloor>y\<rfloor> \<and> odd \<lfloor>y\<rfloor> then NInf else PInf)"
| "pow_inf NInf PInf = PInf"
| "pow_inf NInf NInf = Fin 0"
| "pow_inf a b = NaN"

definition np_pow :: "npfloat \<Rightarrow> npfloat \<Rightarrow> npfloat" where
  "np_pow a b =
     (if b = Fin 0 then Fin 1 else if a = Fin 1 then Fin 1
      else if a = NaN \<or> b = NaN then NaN else pow_inf a b)"

section \<open>general\_utils.create\_function\<close>

text \<open>\<^verbatim>\<open>equation_str.replace("^", "**")\<close>: every occurrence of one character.\<close>

definition str_replace_char :: "char \<Rightarrow> string \<Rightarrow> string \<Rightarrow> string" where
  "str_replace_char old new s = concat (map (\<lambda>c. if c = old then new else [c]) s)"

text \<open>
  The expression \<^verbatim>\<open>sympy.sympify\<close> builds, on the grammar of the discovery backend:
  numbers, names, the five binary operators, a sign, and one-argument calls. The tree is
  kept as parsed (sympy's automatic simplification, which can cancel a symbol, is not
  modelled). A name that is not in \<^verbatim>\<open>locals\<close> becomes a free symbol
  (\<^verbatim>\<open>Symbol\<close>, or an undefined function when it is applied); the declared
  parameters are such names too, since \<^verbatim>\<open>symbols\<close> is not passed to the parser.
  Names that sympy defines itself (\<^verbatim>\<open>pi\<close>, \<^verbatim>\<open>sin\<close>, ...) are outside this
  grammar: the backend is configured with \<^verbatim>\<open>exp\<close> and \<^verbatim>\<open>log\<close> only.
\<close>

datatype expr =
    Num real
  | Sym string
  | Neg expr
  | Add expr expr
  | Sub expr expr
  | Mul expr expr
  | Div expr expr
  | Pwr expr expr
  | Call string expr

datatype token =
    TNum real | TName string | TPlus | TMinus | TStar | TSlash | TPow | TLParen | TRParen

definition is_digit :: "char \<Rightarrow> bool" where
  "is_digit c = (c \<in> set ''0123456789'')"

definition is_alpha :: "char \<Rightarrow> bool" where
  "is_alpha c = (c \<in> set ''abcdefghijklmnopqrstuvwxyzABCDEFGHIJKLMNOPQRSTUVWXYZ_'')"

fun index_of :: "'a list \<Rightarrow> 'a \<Rightarrow> nat option" where
  "index_of [] c = None"
| "index_of (x # xs) c = (if x = c then Some 0 else map_option Suc (index_of xs c))"

definition digit_val :: "char \<Rightarrow> nat" where
  "digit_val c = (case index_of ''0123456789'' c of Some i \<Rightarrow> i | None \<Rightarrow> 0)"

definition nat_of_digits :: "string \<Rightarrow> nat" where
  "nat_of_digits s = foldl (\<lambda>a c. 10 * a + digit_val c) 0 s"

text \<open>A number literal: digits, an optional fraction, an optional decimal exponent.\<close>

definition exponent_value :: "string \<Rightarrow> int option" where
  "exponent_value s =
     (case s of
        [] \<Rightarrow> None
      | c # cs \<Rightarrow>
          (if c = CHR ''-'' then
             (if cs \<noteq> [] \<and> list_all is_digit cs then Some (- int (nat_of_digits cs)) else None)
           else if c = CHR ''+'' then
             (if cs \<noteq> [] \<and> list_all is_digit cs then Some (int (nat_of_digits cs)) else None)
           else if list_all is_digit s then Some (int (nat_of_digits s)) else None))"

definition mantissa_value :: "string \<Rightarrow> real option" where
  "mantissa_value s =
     (let ip = takeWhile (\<lambda>c. c \<noteq> CHR ''.'') s;
          fp = drop 1 (dropWhile (\<lambda>c. c \<noteq> CHR ''.'') s)
      in if list_all is_digit ip \<and> list_all is_digit fp \<and> ip @ fp \<noteq> []
         then Some (real (nat_of_digits ip) + real (nat_of_digits fp) / 10 ^ length fp)
         else None)"

definition number_value :: "string \<Rightarrow> real option" where
  "number_value s =
     (let is_e = (\<lambda>c. c = CHR ''e'' \<or> c = CHR ''E'');
          m = takeWhile (\<lambda>c. \<not> is_e c) s;
          r = dropWhile (\<lambda>c. \<not> is_e c) s
      in case mantissa_value m of
           None \<Rightarrow> None
         | Some v \<Rightarrow>
             (if r = [] then Some v
              else case exponent_value (drop 1 r) of
                     None \<Rightarrow> None
                   | Some k \<Rightarrow> Some (if 0 \<le> k then v * 10 ^ nat k else v / 10 ^ nat (- k))))"

datatype pending = Idle | InName string | InNumber string

fun flush :: "pending \<Rightarrow> token list option" where
  "flush Idle = Some []"
| "flush (InName s) = Some [TName s]"
| "flush (InNumber s) = map_option (\<lambda>r. [TNum r]) (number_value s)"

fun continues :: "pending \<Rightarrow> char \<Rightarrow> bool" where
  "continues Idle c = False"
| "continues (InName s) c = (is_alpha c \<or> is_digit c)"
| "continues (InNumber s) c =
     (is_digit c \<or> c = CHR ''.'' \<or> c = CHR ''e'' \<or> c = CHR ''E'' \<or>
      ((c = CHR ''+'' \<or> c = CHR ''-'') \<and> s \<noteq> [] \<and> (last s = CHR ''e'' \<or> last s = CHR ''E'')))"

fun extend :: "pending \<Rightarrow> char \<Rightarrow> pending" where
  "extend Idle c = Idle"
| "extend (InName s) c = InName (s @ [c])"
| "extend (InNumber s) c = InNumber (s @ [c])"

definition emit :: "token list option \<Rightarrow> token list \<Rightarrow> token list option \<Rightarrow> token list option" where
  "emit lhs ts rhs =
     (case lhs of
        None \<Rightarrow> None
      | Some xs \<Rightarrow> (case rhs of None \<Rightarrow> None | Some ys \<Rightarrow> Some (xs @ ts @ ys)))"

fun tokenize :: "pending \<Rightarrow> string \<Rightarrow> token list option" where
  "tokenize p [] = flush p"
| "tokenize p (c # cs) =
     (if continues p c then tokenize (extend p c) cs
      else if is_alpha c then emit (flush p) [] (tokenize (InName [c]) cs)
      else if is_digit c \<or> c = CHR ''.'' then emit (flush p) [] (tokenize (InNumber [c]) cs)
      else if c = CHR '' '' then emit (flush p) [] (tokenize Idle cs)
      else if c = CHR ''+'' then emit (flush p) [TPlus] (tokenize Idle cs)
      else if c = CHR ''-'' then emit (flush p) [TMinus] (tokenize Idle cs)
      else if c = CHR ''/'' then emit (flush p) [TSlash] (tokenize Idle cs)
      else if c = CHR ''('' then emit (flush p) [TLParen] (tokenize Idle cs)
      else if c = CHR '')'' then emit (flush p) [TRParen] (tokenize Idle cs)
      else if c = CHR ''*'' then
        (case cs of
           [] \<Rightarrow> emit (flush p) [TStar] (Some [])
         | d # ds \<Rightarrow>
             (if d = CHR ''*'' then emit (flush p) [TPow] (tokenize Idle ds)
              else emit (flush p) [TStar] (tokenize Idle cs)))
      else None)"

text \<open>
  Precedence parsing with an operator stack and an operand stack. Python's grammar:
  \<^verbatim>\<open>**\<close> binds tighter than a sign on its left and associates to the right; a sign binds
  tighter than \<^verbatim>\<open>*\<close> and \<^verbatim>\<open>/\<close>, which bind tighter than \<^verbatim>\<open>+\<close> and \<^verbatim>\<open>-\<close>.
\<close>

datatype stack_op = OAdd | OSub | OMul | ODiv | OPow | ONeg | OPos | OParen | OFunc string

fun precedence :: "stack_op \<Rightarrow> nat" where
  "precedence OAdd = 1"
| "precedence OSub = 1"
| "precedence OMul = 2"
| "precedence ODiv = 2"
| "precedence ONeg = 3"
| "precedence OPos = 3"
| "precedence OPow = 4"
| "precedence OParen = 0"
| "precedence (OFunc f) = 0"

fun apply_op :: "stack_op \<Rightarrow> expr list \<Rightarrow> expr list option" where
  "apply_op OAdd (b # a # out) = Some (Add a b # out)"
| "apply_op OSub (b # a # out) = Some (Sub a b # out)"
| "apply_op OMul (b # a # out) = Some (Mul a b # out)"
| "apply_op ODiv (b # a # out) = Some (Div a b # out)"
| "apply_op OPow (b # a # out) = Some (Pwr a b # out)"
| "apply_op ONeg (a # out) = Some (Neg a # out)"
| "apply_op OPos (a # out) = Some (a # out)"
| "apply_op opr out = None"

fun pop_while :: "nat \<Rightarrow> stack_op list \<Rightarrow> expr list \<Rightarrow> (stack_op list \<times> expr list) option" where
  "pop_while lvl [] out = Some ([], out)"
| "pop_while lvl (opr # ops) out =
     (if lvl \<le> precedence opr then
        (case apply_op opr out of None \<Rightarrow> None | Some out' \<Rightarrow> pop_while lvl ops out')
      else Some (opr # ops, out))"

definition push_binary ::
  "stack_op \<Rightarrow> nat \<Rightarrow> stack_op list \<Rightarrow> expr list \<Rightarrow> (stack_op list \<times> expr list) option" where
  "push_binary opr lvl ops out =
     (case pop_while lvl ops out of
        None \<Rightarrow> None
      | Some (ops', out') \<Rightarrow> Some (opr # ops', out'))"

definition close_paren ::
  "stack_op list \<Rightarrow> expr list \<Rightarrow> (stack_op list \<times> expr list) option" where
  "close_paren ops out =
     (case pop_while 1 ops out of
        Some (OParen # ops', out') \<Rightarrow> Some (ops', out')
      | Some (OFunc f # ops', e # out') \<Rightarrow> Some (ops', Call f e # out')
      | _ \<Rightarrow> None)"

definition finish :: "stack_op list \<Rightarrow> expr list \<Rightarrow> expr option" where
  "finish ops out =
     (case pop_while 1 ops out of Some ([], [e]) \<Rightarrow> Some e | _ \<Rightarrow> None)"

text \<open>\<open>operand\<close> says whether the next token must start an operand.\<close>

fun shunt :: "bool \<Rightarrow> stack_op list \<Rightarrow> expr list \<Rightarrow> token list \<Rightarrow> expr option" where
  "shunt operand ops out [] = (if operand then None else finish ops out)"
| "shunt operand ops out (t # ts) =
     (if operand then
        (case t of
           TNum r \<Rightarrow> shunt False ops (Num r # out) ts
         | TName s \<Rightarrow>
             (case ts of
                TLParen # ts' \<Rightarrow> shunt True (OFunc s # ops) out ts'
              | _ \<Rightarrow> shunt False ops (Sym s # out) ts)
         | TLParen \<Rightarrow> shunt True (OParen # ops) out ts
         | TMinus \<Rightarrow> shunt True (ONeg # ops) out ts
         | TPlus \<Rightarrow> shunt True (OPos # ops) out ts
         | _ \<Rightarrow> None)
      else
        (case t of
           TPlus \<Rightarrow> (case push_binary OAdd 1 ops out of
                        None \<Rightarrow> None | Some (ops', out') \<Rightarrow> shunt True ops' out' ts)
         | TMinus \<Rightarrow> (case push_binary OSub 1 ops out of
                        None \<Rightarrow> None | Some (ops', out') \<Rightarrow> shunt True ops' out' ts)
         | TStar \<Rightarrow> (case push_binary OMul 2 ops out of
                        None \<Rightarrow> None | Some (ops', out') \<Rightarrow> shunt True ops' out' ts)
         | TSlash \<Rightarrow> (case push_binary ODiv 2 ops out of
                        None \<Rightarrow> None | Some (ops', out') \<Rightarrow> shunt True ops' out' ts)
         | TPow \<Rightarrow> (case push_binary OPow 5 ops out of
                        None \<Rightarrow> None | Some (ops', out') \<Rightarrow> shunt True ops' out' ts)
         | TRParen \<Rightarrow> (case close_paren ops out of
                        None \<Rightarrow> None | Some (ops', out') \<Rightarrow> shunt False ops' out' ts)
         | _ \<Rightarrow> None))"

definition sympify :: "string \<Rightarrow> py_error + expr" where
  "sympify s =
     (case tokenize Idle s of
        None \<Rightarrow> Inl SympifyError
      | Some ts \<Rightarrow> (case shunt True [] [] ts of None \<Rightarrow> Inl SympifyError | Some e \<Rightarrow> Inr e))"

text \<open>
  \<^verbatim>\<open>sympy.lambdify(symbols, expr, "numpy")\<close>: a Python function whose positional
  arguments are the symbols, in their order, and whose body is the printed expression.
  \<^verbatim>\<open>sp.symbols(param_names)\<close> makes one symbol per name (names are plain identifiers,
  as column labels of the dataset are).
\<close>

record lambdified =
  fn_args :: "string list"
  fn_body :: expr

definition lambdify :: "string list \<Rightarrow> expr \<Rightarrow> lambdified" where
  "lambdify symbols e = \<lparr>fn_args = symbols, fn_body = e\<rparr>"

definition create_function :: "string \<Rightarrow> string list \<Rightarrow> py_error + lambdified" where
  "create_function equation_str param_names =
     (let equation_str' = str_replace_char CHR ''^'' ''**'' equation_str;
          symbols = param_names
      in bind_err (sympify equation_str') (\<lambda>e. Inr (lambdify symbols e)))"

text \<open>
  Calling the function. The body runs in a namespace that holds the arguments and
  numpy's \<^verbatim>\<open>exp\<close> and \<^verbatim>\<open>log\<close>; any other name is unbound there and raises
  \<^verbatim>\<open>NameError\<close>. numpy's arithmetic on floats raises nothing.
\<close>

fun eval_expr :: "(string \<times> npfloat) list \<Rightarrow> expr \<Rightarrow> py_error + npfloat" where
  "eval_expr env (Num r) = Inr (Fin r)"
| "eval_expr env (Sym s) = (case map_of env s of None \<Rightarrow> Inl (NameError s) | Some v \<Rightarrow> Inr v)"
| "eval_expr env (Neg a) = bind_err (eval_expr env a) (\<lambda>x. Inr (np_neg x))"
| "eval_expr env (Add a b) = bind_err (eval_expr env a) (\<lambda>x. bind_err (eval_expr env b) (\<lambda>y. Inr (np_add x y)))"
| "eval_expr env (Sub a b) = bind_err (eval_expr env a) (\<lambda>x. bind_err (eval_expr env b) (\<lambda>y. Inr (np_sub x y)))"
| "eval_expr env (Mul a b) = bind_err (eval_expr env a) (\<lambda>x. bind_err (eval_expr env b) (\<lambda>y. Inr (np_mul x y)))"
| "eval_expr env (Div a b) = bind_err (eval_expr env a) (\<lambda>x. bind_err (eval_expr env b) (\<lambda>y. Inr (np_div x y)))"
| "eval_expr env (Pwr a b) = bind_err (eval_expr env a) (\<lambda>x. bind_err (eval_expr env b) (\<lambda>y. Inr (np_pow x y)))"
| "eval_expr env (Call f a) =
     (if f = ''exp'' then bind_err (eval_expr env a) (\<lambda>x. Inr (np_exp x))
      else if f = ''log'' then bind_err (eval_expr env a) (\<lambda>x. Inr (np_log x))
      else Inl (NameError f))"

definition call_fn :: "lambdified \<Rightarrow> npfloat list \<Rightarrow> py_error + npfloat" where
  "call_fn func vals =
     (if length vals \<noteq> length (fn_args func) then Inl TypeError
      else eval_expr (zip (fn_args func) vals) (fn_body func))"



section \<open>MEDProcessor\<close>

record med_processor =
  df :: dataframe
  target :: string
  folder_save_name :: string
  param_names :: "string list"

definition MEDProcessor_init ::
  "string list \<Rightarrow> dataframe \<Rightarrow> string \<Rightarrow> string \<Rightarrow> py_error + med_processor" where
  "MEDProcessor_init names d tgt folder =
     (let missing = filter (\<lambda>p. p \<notin> set (columns d)) names
      in if missing \<noteq> [] then Inl (ValueError missing)
         else Inr \<lparr>df = d, target = tgt, folder_save_name = folder, param_names = names\<rparr>)"

subsection \<open>prepare\_data\<close>

text \<open>\<^verbatim>\<open>df[name]\<close>: the cells of one column, or \<^verbatim>\<open>KeyError\<close>.\<close>

definition getitem_col :: "dataframe \<Rightarrow> string \<Rightarrow> py_error + real list" where
  "getitem_col d name =
     (case index_of (columns d) name of
        None \<Rightarrow> Inl (KeyError name)
      | Some i \<Rightarrow> Inr (map (\<lambda>r. r ! i) (rows d)))"

text \<open>The cells of a column that exists (for stating properties; the code uses \<open>getitem_col\<close>).\<close>

definition column_of :: "dataframe \<Rightarrow> string \<Rightarrow> real list" where
  "column_of d name = (case getitem_col d name of Inr col \<Rightarrow> col | Inl e \<Rightarrow> [])"

text \<open>\<^verbatim>\<open>Series.min()\<close> and \<^verbatim>\<open>Series.max()\<close>; of an empty column they are \<^verbatim>\<open>nan\<close>.\<close>

definition series_min :: "real list \<Rightarrow> npfloat" where
  "series_min xs = (case xs of [] \<Rightarrow> NaN | x # ys \<Rightarrow> Fin (fold min ys x))"

definition series_max :: "real list \<Rightarrow> npfloat" where
  "series_max xs = (case xs of [] \<Rightarrow> NaN | x # ys \<Rightarrow> Fin (fold max ys x))"

record parameters =
  names :: "string list"
  minimums :: "npfloat list"
  maximums :: "npfloat list"

definition prepare_data ::
  "(int \<Rightarrow> nat \<Rightarrow> nat list) \<Rightarrow> med_processor \<Rightarrow> real \<Rightarrow> int \<Rightarrow>
     py_error + (dataframe \<times> dataframe \<times> parameters)" where
  "prepare_data draw self split_frac seed =
     (let (train_df, test_df) = split_df draw (df self) split_frac seed
      in bind_err (collect (\<lambda>param. bind_err (getitem_col (df self) param)
                                       (\<lambda>col. Inr (series_min col))) (param_names self))
           (\<lambda>mins.
         bind_err (collect (\<lambda>param. bind_err (getitem_col (df self) param)
                                       (\<lambda>col. Inr (series_max col))) (param_names self))
           (\<lambda>maxs.
         Inr (train_df, test_df,
              \<lparr>names = param_names self, minimums = mins, maximums = maxs\<rparr>))))"

subsection \<open>The equation artifact\<close>

text \<open>
  One row of \<^verbatim>\<open>hall_of_fame.csv\<close>. \<^verbatim>\<open>pd.read_csv\<close> is modelled by the file
  system it reads: a map from paths to the table stored there.
\<close>

record equation_record =
  Equation :: string
  Complexity :: int

type_synonym file_system = "string \<Rightarrow> equation_record list option"

definition read_csv :: "file_system \<Rightarrow> string \<Rightarrow> py_error + equation_record list" where
  "read_csv fs path =
     (case fs path of None \<Rightarrow> Inl (FileNotFoundError path) | Some table \<Rightarrow> Inr table)"

text \<open>
  \<^verbatim>\<open>tmp_path if tmp_path else f"{self.folder_save_name}/hall_of_fame.csv"\<close>: \<^verbatim>\<open>None\<close>
  and the empty string are both false.
\<close>

definition eq_path_of :: "med_processor \<Rightarrow> string option \<Rightarrow> string" where
  "eq_path_of self tmp_path =
     (case tmp_path of
        None \<Rightarrow> folder_save_name self @ ''/hall_of_fame.csv''
      | Some p \<Rightarrow> if p \<noteq> [] then p else folder_save_name self @ ''/hall_of_fame.csv'')"

subsection \<open>get\_complexity\_equation\<close>

definition get_complexity_equation ::
  "file_system \<Rightarrow> med_processor \<Rightarrow> int \<Rightarrow> string option \<Rightarrow> py_error + string option" where
  "get_complexity_equation fs self complexity tmp_path =
     bind_err (read_csv fs (eq_path_of self tmp_path))
       (\<lambda>df_equations.
          let equation_row = filter (\<lambda>r. Complexity r = complexity) df_equations
          in Inr (if equation_row \<noteq> [] then Some (Equation (hd equation_row)) else None))"

subsection \<open>test\_equations\<close>

text \<open>Formatting an integer in an f-string.\<close>

definition digit_char :: "nat \<Rightarrow> char" where
  "digit_char n = ''0123456789'' ! (n mod 10)"

function string_of_nat :: "nat \<Rightarrow> string" where
  "string_of_nat n =
     (if n < 10 then [digit_char n] else string_of_nat (n div 10) @ [digit_char n])"
  by pat_completeness auto
termination
  by (relation "measure id") auto

definition string_of_int :: "int \<Rightarrow> string" where
  "string_of_int i =
     (if i < 0 then CHR ''-'' # string_of_nat (nat (- i)) else string_of_nat (nat i))"

definition err_column :: "int \<Rightarrow> string \<Rightarrow> string" where
  "err_column complexity tgt =
     ''Complexity '' @ string_of_int complexity @ '' '' @ tgt @ '' p err''"

text \<open>\<^verbatim>\<open>np.abs(actual - pred) / (np.abs(actual) + 1e-8)\<close>\<close>

definition relative_error :: "npfloat \<Rightarrow> npfloat \<Rightarrow> npfloat" where
  "relative_error actual pred =
     np_div (np_abs (np_sub actual pred)) (np_add (np_abs actual) (Fin (1 / 10 ^ 8)))"

text \<open>
  \<^verbatim>\<open>test_df.sort_values(by=self.param_names)\<close>: the rows ordered by the listed columns,
  left to right. Rows that agree on all of them keep their order here; with a single
  column pandas leaves their order to the sorting algorithm, and no property below
  depends on it.
\<close>

definition sort_values :: "string list \<Rightarrow> dataframe \<Rightarrow> py_error + dataframe" where
  "sort_values keys d =
     bind_err (collect (\<lambda>p. case index_of (columns d) p of
                               None \<Rightarrow> Inl (KeyError p) | Some i \<Rightarrow> Inr i) keys)
       (\<lambda>idxs. Inr (d\<lparr>rows := sort_key (\<lambda>r. map (\<lambda>i. r ! i) idxs) (rows d)\<rparr>))"

text \<open>\<^verbatim>\<open>test_row[name]\<close> on a row of a frame with the given column labels.\<close>

definition row_getitem :: "string list \<Rightarrow> real list \<Rightarrow> string \<Rightarrow> py_error + real" where
  "row_getitem cols test_row name =
     (case index_of cols name of None \<Rightarrow> Inl (KeyError name) | Some i \<Rightarrow> Inr (test_row ! i))"

text \<open>
  The inner loop over the equations of the artifact, each with its compiled function.
  \<open>result_row\<close> is a Python dict: storing under a key that is present replaces the
  value in place, a new key goes to the end.
\<close>

fun score_equations ::
  "med_processor \<Rightarrow> string list \<Rightarrow> real list \<Rightarrow> (lambdified \<times> int) list \<Rightarrow>
     (string \<times> npfloat) list \<Rightarrow> py_error + (string \<times> npfloat) list" where
  "score_equations self cols test_row [] result_row = Inr result_row"
| "score_equations self cols test_row ((func, complexity) # eqs) result_row =
     bind_err (collect (row_getitem cols test_row) (param_names self)) (\<lambda>param_values.
     bind_err (call_fn func (map Fin param_values)) (\<lambda>pred.
     bind_err (row_getitem cols test_row (target self)) (\<lambda>actual.
       let err = relative_error (Fin actual) pred
       in score_equations self cols test_row eqs
            (AList.update (err_column complexity (target self)) err result_row))))"

definition score_row ::
  "med_processor \<Rightarrow> string list \<Rightarrow> (lambdified \<times> int) list \<Rightarrow> real list \<Rightarrow>
     py_error + (string \<times> npfloat) list" where
  "score_row self cols eqs test_row =
     bind_err (collect (\<lambda>param. bind_err (row_getitem cols test_row param)
                                   (\<lambda>v. Inr (param, Fin v))) (param_names self))
       (\<lambda>items.
     bind_err (row_getitem cols test_row (target self)) (\<lambda>t.
       let result_row = fold (\<lambda>(k, v). AList.update k v) items [];
           result_row = AList.update (target self) (Fin t) result_row
       in score_equations self cols test_row eqs result_row))"

text \<open>
  The whole pass. For an artifact without records \<^verbatim>\<open>df_equations.apply\<close> returns an
  empty frame instead of a column, and storing it as the column \<^verbatim>\<open>Function\<close> raises
  \<^verbatim>\<open>ValueError\<close>. The test \<^verbatim>\<open>if func:\<close> holds for every function.
\<close>

definition test_equations ::
  "file_system \<Rightarrow> med_processor \<Rightarrow> dataframe \<Rightarrow> string option \<Rightarrow>
     py_error + (string \<times> npfloat) list list" where
  "test_equations fs self test_df tmp_path =
     bind_err (read_csv fs (eq_path_of self tmp_path)) (\<lambda>df_equations.
     if df_equations = [] then Inl (ValueError [''Function''])
     else
     bind_err (collect (\<lambda>row. bind_err (create_function (Equation row) (param_names self))
                                 (\<lambda>func. Inr (func, Complexity row))) df_equations)
       (\<lambda>eqs.
     bind_err (sort_values (param_names self) test_df) (\<lambda>sorted_df.
       collect (score_row self (columns sorted_df) eqs) (rows sorted_df))))"

section \<open>Example data\<close>

text \<open>Four observations of \<open>y = 2 * x + 1\<close>, artifacts, and test frames, for running the model.\<close>

definition example_df :: dataframe where
  "example_df = \<lparr>columns = [''x'', ''y''], rows = [[1, 3], [2, 5], [3, 7], [0, 1]]\<rparr>"


definition example_table :: "equation_record list" where
  "example_table =
     [\<lparr>Equation = ''x'', Complexity = 1\<rparr>,
      \<lparr>Equation = ''2*x'', Complexity = 3\<rparr>,
      \<lparr>Equation = ''x + 1'', Complexity = 3\<rparr>]"

definition example_fs :: file_system where
  "example_fs path = (if path = ''med_study/hall_of_fame.csv'' then Some example_table else None)"

definition example_processor :: med_processor where
  "example_processor =
     \<lparr>df = example_df, target = ''y'', folder_save_name = ''med_study'', param_names = [''x'']\<rparr>"

definition fitted_table :: "equation_record list" where
  "fitted_table =
     [\<lparr>Equation = ''x'', Complexity = 1\<rparr>,
      \<lparr>Equation = ''2*x + 1'', Complexity = 5\<rparr>]"

definition log_table :: "equation_record list" where
  "log_table = [\<lparr>Equation = ''log(x)'', Complexity = 2\<rparr>]"

definition fitted_fs :: file_system where
  "fitted_fs path =
     (if path = ''tmp/hall_of_fame.csv'' then Some fitted_table
      else if path = ''log/hall_of_fame.csv'' then Some log_table
      else None)"


definition example_test_df :: dataframe where
  "example_test_df = \<lparr>columns = [''x'', ''y''], rows = [[3, 7], [2, 5]]\<rparr>"

definition example_results :: "(string \<times> npfloat) list list" where
  "example_results =
     [[(''x'', Fin 2), (''y'', Fin 5),
       (''Complexity 1 y p err'', Fin (3 / (5 + 1 / 10 ^ 8))),
       (''Complexity 5 y p err'', Fin 0)],
      [(''x'', Fin 3), (''y'', Fin 7),
       (''Complexity 1 y p err'', Fin (4 / (7 + 1 / 10 ^ 8))),
       (''Complexity 5 y p err'', Fin 0)]]"

section \<open>Properties of the splitter\<close>









lemma rotate_draw_3_4: "rotate_draw 3 (Suc (Suc (Suc (Suc 0)))) = [3, 0, 1, 2]"
  by (simp add: rotate_draw_def upt_rec eval_nat_numeral)

lemma sample_all_example:
  "sample_all rotate_draw 3 example_df =
     \<lparr>columns = [''x'', ''y''], rows = [[0, 1], [1, 3], [2, 5], [3, 7]]\<rparr>"
  by (simp add: sample_all_def example_df_def rotate_draw_3_4)

lemma split_df_example:
  "split_df rotate_draw example_df (7 / 10) 3 =
     (\<lparr>columns = [''x'', ''y''], rows = [[0, 1], [1, 3]]\<rparr>,
      \<lparr>columns = [''x'', ''y''], rows = [[2, 5], [3, 7]]\<rparr>)"
  by (simp add: split_df_def sample_all_example Let_def iloc_to_def iloc_from_def
      slice_bound_def py_int_def)









section \<open>Properties of MEDProcessor\<close>

text \<open>
  C8. Construction fails exactly when some requested parameter name is not a column of
  the dataset, and then with the validation error that lists the absent names in the
  order requested; no processor is built. It succeeds exactly when every name is a
  column, and then stores the four arguments unchanged.
\<close>

theorem MEDProcessor_init_validates:
  "((\<exists>p. p \<in> set ps \<and> p \<notin> set (columns d)) \<longleftrightarrow>
      MEDProcessor_init ps d t folder = Inl (ValueError (filter (\<lambda>p. p \<notin> set (columns d)) ps))) \<and>
   (set ps \<subseteq> set (columns d) \<longleftrightarrow>
      MEDProcessor_init ps d t folder =
        Inr \<lparr>df = d, target = t, folder_save_name = folder, param_names = ps\<rparr>)"
proof -
  have "filter (\<lambda>p. p \<notin> set (columns d)) ps = [] \<longleftrightarrow> set ps \<subseteq> set (columns d)"
    by (auto simp: filter_empty_conv)
  then show ?thesis
    by (auto simp: MEDProcessor_init_def Let_def)
qed

lemma filter_find_hd:
  "(if filter P xs \<noteq> [] then Some (f (hd (filter P xs))) else None) = map_option f (find P xs)"
  by (induction xs) auto

text \<open>
  C10. When the artifact is read, \<^verbatim>\<open>get_complexity_equation\<close> returns the equation
  text of the first record, in row order, whose complexity is the one asked for, also
  when later records share it, and \<^verbatim>\<open>None\<close> exactly when no record has it.
\<close>

theorem get_complexity_equation_first_match:
  assumes "fs (eq_path_of self tmp_path) = Some eqs"
  shows "get_complexity_equation fs self c tmp_path
           = Inr (map_option Equation (find (\<lambda>r. Complexity r = c) eqs)) \<and>
         (get_complexity_equation fs self c tmp_path = Inr None \<longleftrightarrow>
            (\<forall>r \<in> set eqs. Complexity r \<noteq> c)) \<and>
         (\<forall>earlier r later. eqs = earlier @ r # later \<and> Complexity r = c \<and>
            (\<forall>x \<in> set earlier. Complexity x \<noteq> c) \<longrightarrow>
            get_complexity_equation fs self c tmp_path = Inr (Some (Equation r)))"
proof -
  have g: "get_complexity_equation fs self c tmp_path
           = Inr (map_option Equation (find (\<lambda>r. Complexity r = c) eqs))"
    using assms
    by (simp add: get_complexity_equation_def read_csv_def bind_err_def Let_def filter_find_hd)
  have n: "find (\<lambda>r. Complexity r = c) eqs = None \<longleftrightarrow> (\<forall>r \<in> set eqs. Complexity r \<noteq> c)"
    by (auto simp: find_None_iff)
  have f: "find (\<lambda>r. Complexity r = c) (earlier @ r # later) = Some r"
    if "Complexity r = c" "\<forall>x \<in> set earlier. Complexity x \<noteq> c" for earlier r later
    using that by (induction earlier) auto
  show ?thesis
    using g n f by auto
qed

theorem get_complexity_equation_first_match_witness:
  "example_fs (eq_path_of example_processor None) = Some example_table \<and>
   get_complexity_equation example_fs example_processor 3 None = Inr (Some ''2*x'') \<and>
   get_complexity_equation example_fs example_processor 2 None = Inr None"
proof -
  have p: "example_fs (eq_path_of example_processor None) = Some example_table"
    by (simp add: example_fs_def eq_path_of_def example_processor_def)
  from get_complexity_equation_first_match[where fs = example_fs and self = example_processor
      and tmp_path = None and eqs = example_table and c = 3, OF p]
  have a: "get_complexity_equation example_fs example_processor 3 None = Inr (Some ''2*x'')"
    by (simp add: example_table_def)
  from get_complexity_equation_first_match[where fs = example_fs and self = example_processor
      and tmp_path = None and eqs = example_table and c = 2, OF p]
  have b: "get_complexity_equation example_fs example_processor 2 None = Inr None"
    by (simp add: example_table_def)
  from p a b show ?thesis by blast
qed

lemma bind_err_Inr [simp]: "bind_err (Inr v) f = f v"
  by (simp add: bind_err_def)

lemma bind_err_Inl [simp]: "bind_err (Inl e) f = Inl e"
  by (simp add: bind_err_def)

lemma collect_map:
  assumes "\<forall>x \<in> set xs. f x = Inr (g x)"
  shows "collect f xs = Inr (map g xs)"
  using assms by (induction xs) (simp_all add: bind_err_def)

lemma index_of_Some: "c \<in> set xs \<Longrightarrow> \<exists>i. index_of xs c = Some i"
  by (induction xs) auto

lemma series_min_Min: "xs \<noteq> [] \<Longrightarrow> series_min xs = Fin (Min (set xs))"
proof (cases xs)
  case Nil
  moreover assume "xs \<noteq> []"
  ultimately show ?thesis by simp
next
  case (Cons a list)
  have "fold min list a = Min (set (a # list))"
    by (simp only: Min.set_eq_fold)
  then show ?thesis
    by (simp add: series_min_def Cons)
qed

lemma series_max_Max: "xs \<noteq> [] \<Longrightarrow> series_max xs = Fin (Max (set xs))"
proof (cases xs)
  case Nil
  moreover assume "xs \<noteq> []"
  ultimately show ?thesis by simp
next
  case (Cons a list)
  have "fold max list a = Max (set (a # list))"
    by (simp only: Max.set_eq_fold)
  then show ?thesis
    by (simp add: series_max_def Cons)
qed

text \<open>
  C7. For a processor that passed construction and a dataset with at least one row, the
  bounds \<^verbatim>\<open>prepare_data\<close> returns are, for every declared parameter, the least and
  the greatest cell of that column of the whole dataset, whatever the split returned
  beside them. With a single row the least and the greatest cell coincide.
\<close>

theorem prepare_data_bounds_full_dataset:
  assumes init: "MEDProcessor_init ps d t folder = Inr self" and ne: "rows d \<noteq> []"
  shows "prepare_data draw self f seed =
           Inr (fst (split_df draw d f seed), snd (split_df draw d f seed),
                \<lparr>names = ps,
                 minimums = map (\<lambda>p. Fin (Min (set (column_of d p)))) ps,
                 maximums = map (\<lambda>p. Fin (Max (set (column_of d p)))) ps\<rparr>) \<and>
         (\<forall>p \<in> set ps. getitem_col d p = Inr (column_of d p) \<and>
            length (column_of d p) = length (rows d)) \<and>
         (\<forall>r. rows d = [r] \<longrightarrow>
            (\<forall>p \<in> set ps. Min (set (column_of d p)) = Max (set (column_of d p))))"
proof -
  have sub: "set ps \<subseteq> set (columns d)"
    and self: "self = \<lparr>df = d, target = t, folder_save_name = folder, param_names = ps\<rparr>"
    using init by (auto simp: MEDProcessor_init_def Let_def filter_empty_conv split: if_splits)
  have col: "getitem_col d p = Inr (column_of d p) \<and> length (column_of d p) = length (rows d)"
    if "p \<in> set ps" for p
  proof -
    from that sub have "p \<in> set (columns d)" ..
    from index_of_Some[OF this] obtain i where "index_of (columns d) p = Some i" ..
    then show ?thesis by (simp add: getitem_col_def column_of_def)
  qed
  have nonempty: "column_of d p \<noteq> []" if "p \<in> set ps" for p
  proof
    assume "column_of d p = []"
    with col[OF that] have "length (rows d) = 0" by simp
    with ne show False by simp
  qed
  have mins: "collect (\<lambda>param. bind_err (getitem_col d param) (\<lambda>col. Inr (series_min col))) ps
      = Inr (map (\<lambda>p. Fin (Min (set (column_of d p)))) ps)"
    by (rule collect_map) (simp add: col nonempty series_min_Min)
  have maxs: "collect (\<lambda>param. bind_err (getitem_col d param) (\<lambda>col. Inr (series_max col))) ps
      = Inr (map (\<lambda>p. Fin (Max (set (column_of d p)))) ps)"
    by (rule collect_map) (simp add: col nonempty series_max_Max)
  have "prepare_data draw self f seed =
           Inr (fst (split_df draw d f seed), snd (split_df draw d f seed),
                \<lparr>names = ps,
                 minimums = map (\<lambda>p. Fin (Min (set (column_of d p)))) ps,
                 maximums = map (\<lambda>p. Fin (Max (set (column_of d p)))) ps\<rparr>)"
    by (simp add: prepare_data_def self mins maxs split_beta)
  moreover have "\<forall>p \<in> set ps. getitem_col d p = Inr (column_of d p) \<and>
            length (column_of d p) = length (rows d)"
    using col by (intro ballI)
  moreover have "\<forall>r. rows d = [r] \<longrightarrow>
            (\<forall>p \<in> set ps. Min (set (column_of d p)) = Max (set (column_of d p)))"
  proof (intro allI impI ballI)
    fix r p assume r: "rows d = [r]" and p: "p \<in> set ps"
    from col[OF p] r have "length (column_of d p) = 1" by simp
    then obtain v where "column_of d p = [v]"
      by (cases "column_of d p") simp_all
    then show "Min (set (column_of d p)) = Max (set (column_of d p))" by simp
  qed
  ultimately show ?thesis by (intro conjI)
qed

theorem prepare_data_bounds_full_dataset_witness:
  "MEDProcessor_init [''x''] example_df ''y'' ''med_study'' = Inr example_processor \<and>
   rows example_df \<noteq> [] \<and>
   column_of example_df ''x'' = [1, 2, 3, 0] \<and>
   prepare_data rotate_draw example_processor (7 / 10) 3 =
     Inr (\<lparr>columns = [''x'', ''y''], rows = [[0, 1], [1, 3]]\<rparr>,
          \<lparr>columns = [''x'', ''y''], rows = [[2, 5], [3, 7]]\<rparr>,
          \<lparr>names = [''x''], minimums = [Fin 0], maximums = [Fin 3]\<rparr>)"
proof -
  have i: "MEDProcessor_init [''x''] example_df ''y'' ''med_study'' = Inr example_processor"
    by (simp add: MEDProcessor_init_def example_df_def example_processor_def)
  have n: "rows example_df \<noteq> []"
    by (simp add: example_df_def)
  have c: "column_of example_df ''x'' = [1, 2, 3, 0]"
    by (simp add: column_of_def getitem_col_def example_df_def)
  from prepare_data_bounds_full_dataset[OF i n, of rotate_draw "7 / 10" 3]
  have "prepare_data rotate_draw example_processor (7 / 10) 3 =
     Inr (\<lparr>columns = [''x'', ''y''], rows = [[0, 1], [1, 3]]\<rparr>,
          \<lparr>columns = [''x'', ''y''], rows = [[2, 5], [3, 7]]\<rparr>,
          \<lparr>names = [''x''], minimums = [Fin 0], maximums = [Fin 3]\<rparr>)"
    by (simp add: c split_df_example)
  with i n c show ?thesis by blast
qed

section \<open>Properties of the equation compiler\<close>

lemmas parse_simps =
  create_function_def str_replace_char_def sympify_def lambdify_def is_alpha_def is_digit_def
  emit_def number_value_def mantissa_value_def exponent_value_def nat_of_digits_def digit_val_def
  push_binary_def close_paren_def finish_def

lemma caret_free_replace:
  "CHR ''^'' \<notin> set s \<Longrightarrow> str_replace_char CHR ''^'' ''**'' s = s"
  by (induction s) (auto simp: str_replace_char_def)

lemma replace_caret_free: "CHR ''^'' \<notin> set (str_replace_char CHR ''^'' ''**'' s)"
  by (induction s) (simp_all add: str_replace_char_def)

lemma create_function_Inr:
  "create_function s ps = Inr func \<longleftrightarrow>
     (\<exists>e. sympify (str_replace_char CHR ''^'' ''**'' s) = Inr e \<and>
          func = \<lparr>fn_args = ps, fn_body = e\<rparr>)"
  by (cases "sympify (str_replace_char CHR ''^'' ''**'' s)")
     (auto simp: create_function_def lambdify_def Let_def)

lemma compile_x_plus_y:
  "create_function ''x + y'' [''x'', ''y''] =
     Inr \<lparr>fn_args = [''x'', ''y''], fn_body = Add (Sym ''x'') (Sym ''y'')\<rparr>"
  by (simp add: parse_simps)

lemma compile_x_squared:
  "create_function ''x^2'' [''x''] = Inr \<lparr>fn_args = [''x''], fn_body = Pwr (Sym ''x'') (Num 2)\<rparr>"
  by (simp add: parse_simps)








text \<open>
  C4. \<^verbatim>\<open>create_function\<close> rewrites every \<^verbatim>\<open>^\<close> to \<^verbatim>\<open>**\<close> before it parses: the
  text handed to the parser has no \<^verbatim>\<open>^\<close>, and compiling a text is compiling its
  rewritten form. The function it returns takes the declared names as its positional
  arguments, in the declared order: the \<open>i\<close>-th value is bound to the \<open>i\<close>-th name, and
  another number of values is refused. \<^verbatim>\<open>x + y\<close> over \<open>[x, y]\<close> at \<open>(2, 3)\<close> is 5
  and \<^verbatim>\<open>x^2\<close> over \<open>[x]\<close> at 3 is 9.
\<close>

theorem create_function_rewrites_and_binds:
  "create_function (str_replace_char CHR ''^'' ''**'' s) ps = create_function s ps \<and>
   (\<forall>func. create_function s ps = Inr func \<longrightarrow>
      fn_args func = ps \<and> sympify (str_replace_char CHR ''^'' ''**'' s) = Inr (fn_body func)) \<and>
   (\<forall>vs i. distinct ps \<and> length vs = length ps \<and> i < length ps \<longrightarrow>
      call_fn (lambdify ps (Sym (ps ! i))) vs = Inr (vs ! i)) \<and>
   (\<forall>vs e. length vs \<noteq> length ps \<longrightarrow> call_fn (lambdify ps e) vs = Inl TypeError) \<and>
   create_function ''x^2'' [''x''] = create_function ''x**2'' [''x''] \<and>
   bind_err (create_function ''x + y'' [''x'', ''y'']) (\<lambda>func. call_fn func [Fin 2, Fin 3])
     = Inr (Fin 5) \<and>
   bind_err (create_function ''x^2'' [''x'']) (\<lambda>func. call_fn func [Fin 3]) = Inr (Fin 9)"
proof -
  have a: "create_function (str_replace_char CHR ''^'' ''**'' s) ps = create_function s ps"
    by (simp add: create_function_def caret_free_replace[OF replace_caret_free])
  have b: "\<forall>func. create_function s ps = Inr func \<longrightarrow>
      fn_args func = ps \<and> sympify (str_replace_char CHR ''^'' ''**'' s) = Inr (fn_body func)"
    by (auto simp: create_function_Inr)
  have c: "call_fn (lambdify ps (Sym (ps ! i))) vs = Inr (vs ! i)"
    if "distinct ps" "length vs = length ps" "i < length ps" for vs i
    using that by (simp add: call_fn_def lambdify_def map_of_zip_nth)
  have d: "\<forall>vs e. length vs \<noteq> length ps \<longrightarrow> call_fn (lambdify ps e) vs = Inl TypeError"
    by (simp add: call_fn_def lambdify_def)
  have e: "create_function ''x^2'' [''x''] = create_function ''x**2'' [''x'']"
    by (simp add: create_function_def str_replace_char_def)
  have f: "bind_err (create_function ''x + y'' [''x'', ''y''])
      (\<lambda>func. call_fn func [Fin 2, Fin 3]) = Inr (Fin 5)"
    by (simp add: compile_x_plus_y call_fn_def)
  have g: "bind_err (create_function ''x^2'' [''x'']) (\<lambda>func. call_fn func [Fin 3]) = Inr (Fin 9)"
    by (simp add: compile_x_squared call_fn_def np_pow_def pow_fin_def)
  from a b c d e f g show ?thesis by blast
qed

theorem create_function_rewrites_and_binds_witness:
  "create_function ''x^2'' [''x''] = Inr \<lparr>fn_args = [''x''], fn_body = Pwr (Sym ''x'') (Num 2)\<rparr> \<and>
   sympify (str_replace_char CHR ''^'' ''**'' ''x^2'') = Inr (Pwr (Sym ''x'') (Num 2)) \<and>
   distinct [''x'', ''y''] \<and>
   call_fn (lambdify [''x'', ''y''] (Sym ''y'')) [Fin 2, Fin 3] = Inr (Fin 3) \<and>
   call_fn (lambdify [''x'', ''y''] (Sym ''y'')) [Fin 2] = Inl TypeError"
proof -
  note t1 = create_function_rewrites_and_binds[of "''x^2''" "[''x'']"]
  note t2 = create_function_rewrites_and_binds[of "''y''" "[''x'', ''y'']"]
  from t1 compile_x_squared
  have a: "sympify (str_replace_char CHR ''^'' ''**'' ''x^2'') = Inr (Pwr (Sym ''x'') (Num 2))"
    by simp
  from t2 have "distinct [''x'', ''y''] \<and> length [Fin 2, Fin 3] = length [''x'', ''y''] \<and>
      (1 :: nat) < length [''x'', ''y''] \<longrightarrow>
      call_fn (lambdify [''x'', ''y''] (Sym ([''x'', ''y''] ! 1))) [Fin 2, Fin 3]
        = Inr ([Fin 2, Fin 3] ! 1)"
    by blast
  then have b: "call_fn (lambdify [''x'', ''y''] (Sym ''y'')) [Fin 2, Fin 3] = Inr (Fin 3)"
    by simp
  from t2 have "length [Fin 2] \<noteq> length [''x'', ''y''] \<longrightarrow>
      call_fn (lambdify [''x'', ''y''] (Sym ''y'')) [Fin 2] = Inl TypeError"
    by blast
  then have c: "call_fn (lambdify [''x'', ''y''] (Sym ''y'')) [Fin 2] = Inl TypeError"
    by simp
  from a b c compile_x_squared show ?thesis by simp
qed




section \<open>Properties of the evaluator\<close>

declare string_of_nat.simps [simp del]

lemma below_ten: "(k :: nat) < 10 \<Longrightarrow> k \<in> {0, 1, 2, 3, 4, 5, 6, 7, 8, 9}"
  by auto

lemma digit_val_digit_char: "digit_val (digit_char n) = n mod 10"
proof -
  have "n mod 10 \<in> {0, 1, 2, 3, 4, 5, 6, 7, 8, 9}"
    by (rule below_ten) simp
  then show ?thesis
    by (auto simp: digit_char_def digit_val_def)
qed

lemma digit_char_is_digit: "digit_char n \<in> set ''0123456789''"
proof -
  have "n mod 10 \<in> {0, 1, 2, 3, 4, 5, 6, 7, 8, 9}"
    by (rule below_ten) simp
  then show ?thesis
    by (auto simp: digit_char_def)
qed

lemma nat_of_digits_snoc: "nat_of_digits (s @ [c]) = 10 * nat_of_digits s + digit_val c"
  by (simp add: nat_of_digits_def)

lemma nat_of_digits_string_of_nat: "nat_of_digits (string_of_nat n) = n"
proof (induction n rule: string_of_nat.induct)
  case (1 n)
  show ?case
  proof (cases "n < 10")
    case True
    then show ?thesis
      by (simp add: string_of_nat.simps[of n] nat_of_digits_def digit_val_digit_char)
  next
    case False
    with 1 have "nat_of_digits (string_of_nat (n div 10)) = n div 10" by simp
    with False show ?thesis
      by (simp add: string_of_nat.simps[of n] nat_of_digits_snoc digit_val_digit_char)
  qed
qed

lemma string_of_nat_digits: "set (string_of_nat n) \<subseteq> set ''0123456789''"
proof (induction n rule: string_of_nat.induct)
  case (1 n)
  show ?case
  proof (cases "n < 10")
    case True
    then show ?thesis
      using digit_char_is_digit[of n] by (simp add: string_of_nat.simps[of n])
  next
    case False
    with 1 have "set (string_of_nat (n div 10)) \<subseteq> set ''0123456789''" by simp
    with False show ?thesis
      using digit_char_is_digit[of n] by (simp add: string_of_nat.simps[of n])
  qed
qed

lemma string_of_nat_inj: "string_of_nat a = string_of_nat b \<Longrightarrow> a = b"
  by (metis nat_of_digits_string_of_nat)

lemma string_of_nat_no_minus: "CHR ''-'' # s \<noteq> string_of_nat n"
proof
  assume "CHR ''-'' # s = string_of_nat n"
  then have "CHR ''-'' \<in> set (string_of_nat n)" by (metis list.set_intros(1))
  with string_of_nat_digits[of n] show False by auto
qed

lemma string_of_int_inj: "string_of_int a = string_of_int b \<Longrightarrow> a = b"
proof -
  assume e: "string_of_int a = string_of_int b"
  consider "a < 0" "b < 0" | "a < 0" "0 \<le> b" | "0 \<le> a" "b < 0" | "0 \<le> a" "0 \<le> b"
    by linarith
  then show ?thesis
  proof cases
    case 1
    with e have "nat (- a) = nat (- b)"
      by (simp add: string_of_int_def string_of_nat_inj)
    with 1 show ?thesis by simp
  next
    case 2
    with e string_of_nat_no_minus show ?thesis
      by (simp add: string_of_int_def)
  next
    case 3
    with e string_of_nat_no_minus[of "string_of_nat (nat (- b))" "nat a"] show ?thesis
      by (simp add: string_of_int_def)
  next
    case 4
    with e have "nat a = nat b"
      by (simp add: string_of_int_def string_of_nat_inj)
    with 4 show ?thesis by simp
  qed
qed

lemma err_column_inj: "err_column a t = err_column b t \<Longrightarrow> a = b"
  by (simp add: err_column_def string_of_int_inj)

lemma bind_err_eq_Inr: "bind_err r f = Inr v \<longleftrightarrow> (\<exists>x. r = Inr x \<and> f x = Inr v)"
  by (cases r) simp_all

lemma collect_Inr:
  "collect f xs = Inr ys \<Longrightarrow> list_all2 (\<lambda>x y. f x = Inr y) xs ys"
proof (induction xs arbitrary: ys)
  case Nil
  then show ?case by simp
next
  case (Cons x xs)
  then show ?case by (auto simp: bind_err_eq_Inr)
qed

lemma score_equations_keeps:
  "score_equations self cols test_row eqs acc = Inr res \<Longrightarrow>
   \<forall>e \<in> set eqs. err_column (snd e) (target self) \<noteq> key \<Longrightarrow>
   map_of res key = map_of acc key"
proof (induction eqs arbitrary: acc)
  case Nil
  then show ?case by simp
next
  case (Cons e eqs)
  obtain func c where e: "e = (func, c)" by (cases e)
  from Cons.prems(1) obtain err where
    r: "score_equations self cols test_row eqs
          (AList.update (err_column c (target self)) err acc) = Inr res"
    by (auto simp: e bind_err_eq_Inr Let_def)
  from Cons.prems(2) have k: "err_column c (target self) \<noteq> key"
    and rest: "\<forall>e \<in> set eqs. err_column (snd e) (target self) \<noteq> key"
    by (simp_all add: e)
  from Cons.IH[OF r rest] k show ?case
    by (simp add: update_conv')
qed

lemma score_equations_records:
  "score_equations self cols test_row (earlier @ (func, c) # later) acc = Inr res \<Longrightarrow>
   \<forall>e \<in> set later. snd e \<noteq> c \<Longrightarrow>
   \<exists>param_values actual pred.
     collect (row_getitem cols test_row) (param_names self) = Inr param_values \<and>
     row_getitem cols test_row (target self) = Inr actual \<and>
     call_fn func (map Fin param_values) = Inr pred \<and>
     map_of res (err_column c (target self)) = Some (relative_error (Fin actual) pred)"
proof (induction earlier arbitrary: acc)
  case Nil
  from Nil.prems(1) obtain param_values pred actual where
    p: "collect (row_getitem cols test_row) (param_names self) = Inr param_values"
    and q: "call_fn func (map Fin param_values) = Inr pred"
    and a: "row_getitem cols test_row (target self) = Inr actual"
    and r: "score_equations self cols test_row later
          (AList.update (err_column c (target self)) (relative_error (Fin actual) pred) acc)
            = Inr res"
    by (auto simp: bind_err_eq_Inr Let_def)
  have "\<forall>e \<in> set later. err_column (snd e) (target self) \<noteq> err_column c (target self)"
    using Nil.prems(2) err_column_inj by blast
  from score_equations_keeps[OF r this]
  have "map_of res (err_column c (target self)) = Some (relative_error (Fin actual) pred)"
    by (simp add: update_conv')
  with p q a show ?case by blast
next
  case (Cons e earlier)
  obtain g c' where e: "e = (g, c')" by (cases e)
  from Cons.prems(1) obtain err where
    r: "score_equations self cols test_row (earlier @ (func, c) # later)
          (AList.update (err_column c' (target self)) err acc) = Inr res"
    by (auto simp: e bind_err_eq_Inr Let_def)
  from Cons.IH[OF r Cons.prems(2)] show ?case .
qed

lemma score_row_Inr:
  "score_row self cols eqs test_row = Inr res \<Longrightarrow>
     \<exists>acc. score_equations self cols test_row eqs acc = Inr res"
  by (auto simp: score_row_def bind_err_eq_Inr Let_def)

lemma sort_values_Inr:
  "sort_values keys d = Inr sorted_df \<Longrightarrow>
     columns sorted_df = columns d \<and> mset (rows sorted_df) = mset (rows d)"
  by (auto simp: sort_values_def bind_err_eq_Inr)

lemma relative_error_finite:
  "relative_error (Fin a) (Fin p) = Fin (\<bar>a - p\<bar> / (\<bar>a\<bar> + 1 / 10 ^ 8))"
proof -
  have "\<bar>a\<bar> + 1 / 10 ^ 8 > 0"
    by (smt (verit) zero_less_divide_1_iff zero_less_numeral zero_less_power)
  then show ?thesis
    by (simp add: relative_error_def np_sub_def)
qed

text \<open>
  C3. In every result table \<^verbatim>\<open>test_equations\<close> returns, there is one result row per
  test row (the test rows sorted by the parameter columns), and for every equation
  record that is the last of its complexity in the artifact, the row holds under the
  column named for that complexity the value \<open>|actual - pred| / (|actual| + 1e-8)\<close>
  computed by numpy from the row's target \<open>actual\<close> and the prediction \<open>pred\<close> of the
  compiled equation at the row's parameter values. On finite values this is the real
  quotient; for \<open>actual = 0\<close> it is 0 at \<open>pred = 0\<close> and \<open>10^8\<close> at \<open>pred = 1\<close>.
  (An earlier record of the same complexity writes the same column and is overwritten.)
\<close>

theorem test_equations_relative_error:
  assumes run: "test_equations fs self test_df tmp_path = Inr results"
  shows "\<exists>table sorted_df.
      read_csv fs (eq_path_of self tmp_path) = Inr table \<and>
      sort_values (param_names self) test_df = Inr sorted_df \<and>
      mset (rows sorted_df) = mset (rows test_df) \<and>
      length results = length (rows sorted_df) \<and>
      (\<forall>i < length results. \<forall>j < length table.
         (\<forall>k. j < k \<and> k < length table \<longrightarrow>
              Complexity (table ! k) \<noteq> Complexity (table ! j)) \<longrightarrow>
         (\<exists>func param_values actual pred.
            create_function (Equation (table ! j)) (param_names self) = Inr func \<and>
            collect (row_getitem (columns test_df) (rows sorted_df ! i)) (param_names self)
              = Inr param_values \<and>
            row_getitem (columns test_df) (rows sorted_df ! i) (target self) = Inr actual \<and>
            call_fn func (map Fin param_values) = Inr pred \<and>
            map_of (results ! i) (err_column (Complexity (table ! j)) (target self))
              = Some (relative_error (Fin actual) pred))) \<and>
      (\<forall>a p. relative_error (Fin a) (Fin p) = Fin (\<bar>a - p\<bar> / (\<bar>a\<bar> + 1 / 10 ^ 8))) \<and>
      relative_error (Fin 0) (Fin 0) = Fin 0 \<and>
      relative_error (Fin 0) (Fin 1) = Fin (10 ^ 8)"
proof -
  let ?compile = "\<lambda>row. bind_err (create_function (Equation row) (param_names self))
                                 (\<lambda>func. Inr (func, Complexity row))"
  from run obtain table eqs sorted_df where
    t: "read_csv fs (eq_path_of self tmp_path) = Inr table"
    and c: "collect ?compile table = Inr eqs"
    and s: "sort_values (param_names self) test_df = Inr sorted_df"
    and r: "collect (score_row self (columns sorted_df) eqs) (rows sorted_df) = Inr results"
    by (auto simp: test_equations_def bind_err_eq_Inr split: if_splits)
  note sv = sort_values_Inr[OF s]
  from collect_Inr[OF c] have ce: "list_all2 (\<lambda>x y. ?compile x = Inr y) table eqs" .
  from collect_Inr[OF r]
  have re: "list_all2 (\<lambda>x y. score_row self (columns sorted_df) eqs x = Inr y)
              (rows sorted_df) results" .
  have len: "length results = length (rows sorted_df)"
    using re by (simp add: list_all2_lengthD)
  have leq: "length eqs = length table"
    using ce by (simp add: list_all2_lengthD)
  have eqj: "create_function (Equation (table ! j)) (param_names self) = Inr (fst (eqs ! j)) \<and>
      snd (eqs ! j) = Complexity (table ! j)" if "j < length table" for j
  proof -
    have "?compile (table ! j) = Inr (eqs ! j)"
      using list_all2_nthD[OF ce that] by simp
    then obtain x where "create_function (Equation (table ! j)) (param_names self) = Inr x"
      and "eqs ! j = (x, Complexity (table ! j))"
      by (auto simp: bind_err_eq_Inr)
    then show ?thesis by simp
  qed
  have main: "\<exists>func param_values actual pred.
            create_function (Equation (table ! j)) (param_names self) = Inr func \<and>
            collect (row_getitem (columns test_df) (rows sorted_df ! i)) (param_names self)
              = Inr param_values \<and>
            row_getitem (columns test_df) (rows sorted_df ! i) (target self) = Inr actual \<and>
            call_fn func (map Fin param_values) = Inr pred \<and>
            map_of (results ! i) (err_column (Complexity (table ! j)) (target self))
              = Some (relative_error (Fin actual) pred)"
    if i: "i < length results" and j: "j < length table"
      and last: "\<forall>k. j < k \<and> k < length table \<longrightarrow>
              Complexity (table ! k) \<noteq> Complexity (table ! j)" for i j
  proof -
    from i len have "i < length (rows sorted_df)" by simp
    from list_all2_nthD[OF re this]
    have "score_row self (columns sorted_df) eqs (rows sorted_df ! i) = Inr (results ! i)"
      by simp
    from score_row_Inr[OF this] obtain acc where
      sc: "score_equations self (columns sorted_df) (rows sorted_df ! i) eqs acc
            = Inr (results ! i)" ..
    have split: "eqs = take j eqs @ (fst (eqs ! j), Complexity (table ! j)) # drop (Suc j) eqs"
      using j leq eqj[OF j] by (metis id_take_nth_drop prod.collapse)
    have later: "\<forall>e \<in> set (drop (Suc j) eqs). snd e \<noteq> Complexity (table ! j)"
    proof
      fix e assume "e \<in> set (drop (Suc j) eqs)"
      then obtain m where m: "m < length (drop (Suc j) eqs)" "e = drop (Suc j) eqs ! m"
        by (metis in_set_conv_nth)
      then have k: "j < Suc j + m" "Suc j + m < length table" and e: "e = eqs ! (Suc j + m)"
        using leq by simp_all
      from eqj[OF k(2)] e have "snd e = Complexity (table ! (Suc j + m))" by simp
      with last k show "snd e \<noteq> Complexity (table ! j)" by simp
    qed
    from sc split have sc': "score_equations self (columns sorted_df) (rows sorted_df ! i)
        (take j eqs @ (fst (eqs ! j), Complexity (table ! j)) # drop (Suc j) eqs) acc
          = Inr (results ! i)"
      by simp
    from score_equations_records[OF sc' later] eqj[OF j] sv show ?thesis
      by auto
  qed
  have e0: "relative_error (Fin 0) (Fin 0) = Fin 0"
    by (simp add: relative_error_finite)
  have e1: "relative_error (Fin 0) (Fin 1) = Fin (10 ^ 8)"
    by (simp add: relative_error_finite)
  from t s sv len main relative_error_finite e0 e1 show ?thesis
    by (intro exI[of _ table] exI[of _ sorted_df]) simp
qed

lemma compile_x: "create_function ''x'' [''x''] = Inr \<lparr>fn_args = [''x''], fn_body = Sym ''x''\<rparr>"
  by (simp add: parse_simps)

lemma compile_linear:
  "create_function ''2*x + 1'' [''x''] =
     Inr \<lparr>fn_args = [''x''], fn_body = Add (Mul (Num 2) (Sym ''x'')) (Num 1)\<rparr>"
  by (simp add: parse_simps)

lemma string_of_nat_digit: "n < 10 \<Longrightarrow> string_of_nat n = [digit_char n]"
  by (simp add: string_of_nat.simps[of n])

lemma err_column_1: "err_column 1 ''y'' = ''Complexity 1 y p err''"
  by (simp add: err_column_def string_of_int_def string_of_nat_digit digit_char_def)

lemma err_column_5: "err_column 5 ''y'' = ''Complexity 5 y p err''"
  by (simp add: err_column_def string_of_int_def string_of_nat_digit digit_char_def)

lemma sort_example:
  "sort_values [''x''] example_test_df = Inr \<lparr>columns = [''x'', ''y''], rows = [[2, 5], [3, 7]]\<rparr>"
  by (simp add: sort_values_def example_test_df_def)

lemma test_equations_example:
  "test_equations fitted_fs example_processor example_test_df (Some ''tmp/hall_of_fame.csv'') =
     Inr example_results"
  by (simp add: test_equations_def read_csv_def eq_path_of_def fitted_fs_def fitted_table_def
      example_processor_def compile_x compile_linear sort_example score_row_def row_getitem_def
      call_fn_def relative_error_finite err_column_1 err_column_5 Let_def example_results_def)








theorem test_equations_relative_error_witness:
  "test_equations fitted_fs example_processor example_test_df (Some ''tmp/hall_of_fame.csv'') =
     Inr example_results \<and>
   example_results ! 0 =
     [(''x'', Fin 2), (''y'', Fin 5),
      (''Complexity 1 y p err'', Fin (3 / (5 + 1 / 10 ^ 8))),
      (''Complexity 5 y p err'', Fin 0)] \<and>
   (\<exists>func param_values actual pred.
      create_function ''2*x + 1'' [''x''] = Inr func \<and>
      call_fn func (map Fin param_values) = Inr pred \<and>
      map_of (example_results ! 0) (err_column 5 ''y'')
        = Some (relative_error (Fin actual) pred))"
proof -
  note run = test_equations_example
  from test_equations_relative_error[OF run] obtain table and sorted_df :: dataframe where
    t: "read_csv fitted_fs (eq_path_of example_processor (Some ''tmp/hall_of_fame.csv''))
          = Inr table"
    and m: "\<forall>i < length example_results. \<forall>j < length table.
         (\<forall>k. j < k \<and> k < length table \<longrightarrow>
              Complexity (table ! k) \<noteq> Complexity (table ! j)) \<longrightarrow>
         (\<exists>func param_values actual pred.
            create_function (Equation (table ! j)) (param_names example_processor) = Inr func \<and>
            collect (row_getitem (columns example_test_df) (rows sorted_df ! i))
              (param_names example_processor) = Inr param_values \<and>
            row_getitem (columns example_test_df) (rows sorted_df ! i)
              (target example_processor) = Inr actual \<and>
            call_fn func (map Fin param_values) = Inr pred \<and>
            map_of (example_results ! i)
              (err_column (Complexity (table ! j)) (target example_processor))
              = Some (relative_error (Fin actual) pred))"
    by blast
  from t have tab: "table = fitted_table"
    by (simp add: read_csv_def eq_path_of_def fitted_fs_def)
  have last: "\<forall>k. (1 :: nat) < k \<and> k < length table \<longrightarrow>
              Complexity (table ! k) \<noteq> Complexity (table ! 1)"
    by (simp add: tab fitted_table_def)
  have j: "(1 :: nat) < length table"
    by (simp add: tab fitted_table_def)
  have i: "(0 :: nat) < length example_results"
    by (simp add: example_results_def)
  from m[rule_format, OF i j] last
  have "\<exists>func param_values actual pred.
      create_function (Equation (table ! 1)) (param_names example_processor) = Inr func \<and>
      call_fn func (map Fin param_values) = Inr pred \<and>
      map_of (example_results ! 0)
        (err_column (Complexity (table ! 1)) (target example_processor))
        = Some (relative_error (Fin actual) pred)"
    by blast
  then have "\<exists>func param_values actual pred.
      create_function ''2*x + 1'' [''x''] = Inr func \<and>
      call_fn func (map Fin param_values) = Inr pred \<and>
      map_of (example_results ! 0) (err_column 5 ''y'')
        = Some (relative_error (Fin actual) pred)"
    by (simp add: tab fitted_table_def example_processor_def)
  moreover have "example_results ! 0 =
     [(''x'', Fin 2), (''y'', Fin 5),
      (''Complexity 1 y p err'', Fin (3 / (5 + 1 / 10 ^ 8))),
      (''Complexity 5 y p err'', Fin 0)]"
    by (simp add: example_results_def)
  ultimately show ?thesis using run by blast
qed






end
